theory Spec2Isabelle
  imports Main
begin

section \<open>Data model (sga/models.py)\<close>

text \<open>
  Primary keys are natural numbers, timestamps are natural numbers (UTC seconds),
  Python integers are \<open>int\<close>, nullable columns are options. Every table is the list
  of its rows in storage order. Foreign keys hold the primary key of the row they
  point to.
\<close>

datatype exn =
    DoesNotExist
  | MultipleObjectsReturned
  | Http404
  | PermissionDenied
  | AttributeError
  | ValueError

record user =
  user_pk :: nat
  username :: string

record course_row =
  course_pk :: nat
  course_edx_id :: string
  administrators :: "nat list"

record grader_row =
  grader_pk :: nat
  max_students :: int
  grader_user :: nat
  grader_course :: nat

record student_row =
  student_pk :: nat
  student_grader :: "nat option"
  student_user :: nat
  student_course :: nat

record assignment_row =
  assignment_pk :: nat
  assignment_edx_id :: string
  name :: string
  assignment_course :: nat

record document =
  doc_name :: string
  doc_bytes :: string

record submission =
  submission_pk :: nat
  assignment :: nat
  student :: nat
  graded_by :: "nat option"
  description :: "string option"
  feedback :: "string option"
  grade :: "int option"
  submitted_at :: "nat option"
  graded_at :: "nat option"
  submitted :: bool
  graded :: bool
  student_document :: "document option"
  grader_document :: "document option"
  created_on :: nat
  updated_on :: nat

record db =
  user_table :: "user list"
  course_table :: "course_row list"
  grader_table :: "grader_row list"
  student_table :: "student_row list"
  assignment_table :: "assignment_row list"
  submission_table :: "submission list"

section \<open>Submission.grade_display\<close>

text \<open>Python's \<open>str.format\<close> of an integer: its decimal digits, with a minus sign.\<close>

definition digit_char :: "nat \<Rightarrow> char" where
  "digit_char d = ''0123456789'' ! d"

function str_nat :: "nat \<Rightarrow> string" where
  "str_nat n = (if n < 10 then [digit_char n] else str_nat (n div 10) @ [digit_char (n mod 10)])"
  by pat_completeness auto
termination
  by (relation "measure (\<lambda>n. n)") auto

definition str_int :: "int \<Rightarrow> string" where
  "str_int i = (if i < 0 then CHR ''-'' # str_nat (nat (- i)) else str_nat (nat i))"

text \<open>
  \<open>if self.grade:\<close> tests the truth value of the field: \<open>None\<close> is false, and so is
  the integer 0.
\<close>

definition grade_display :: "submission \<Rightarrow> string" where
  "grade_display s =
     (case grade s of
        None \<Rightarrow> ''(Not Graded)''
      | Some g \<Rightarrow>
          if g \<noteq> 0 then str_int g @ ''/100 ('' @ str_int g @ ''%)''
          else ''(Not Graded)'')"

section \<open>Upload paths (sga/backend/files.py)\<close>

text \<open>
  \<open>os.path.splitext\<close> on a POSIX path: the extension starts at the last dot, provided
  the dot comes after the last slash and some character between the slash and the dot
  is not a dot.
\<close>

definition rfind :: "string \<Rightarrow> char \<Rightarrow> int" where
  "rfind p c =
     (case filter (\<lambda>i. p ! i = c) (rev [0..<length p]) of
        [] \<Rightarrow> - 1
      | i # _ \<Rightarrow> int i)"

function splitext_scan :: "string \<Rightarrow> int \<Rightarrow> int \<Rightarrow> bool" where
  "splitext_scan p filenameIndex dotIndex =
     (if filenameIndex < dotIndex then
        (if p ! nat filenameIndex \<noteq> CHR ''.'' then True
         else splitext_scan p (filenameIndex + 1) dotIndex)
      else False)"
  by pat_completeness auto
termination
  by (relation "measure (\<lambda>(p, filenameIndex, dotIndex). nat (dotIndex - filenameIndex))") auto

definition splitext :: "string \<Rightarrow> string \<times> string" where
  "splitext p =
     (let sepIndex = rfind p CHR ''/'';
          dotIndex = rfind p CHR ''.''
      in if dotIndex > sepIndex \<and> splitext_scan p (sepIndex + 1) dotIndex
         then (take (nat dotIndex) p, drop (nat dotIndex) p)
         else (p, []))"

text \<open>
  The original extension of a file name, said without indices: take the base name, the
  part after the last slash. When a dot occurs in it after the dots it starts with,
  the extension is the last dot of the base name and everything after it; otherwise
  there is none.
\<close>

definition original_extension :: "string \<Rightarrow> string" where
  "original_extension filename =
     (let base = rev (takeWhile (\<lambda>c. c \<noteq> CHR ''/'') (rev filename))
      in if CHR ''.'' \<in> set (dropWhile (\<lambda>c. c = CHR ''.'') base)
         then CHR ''.'' # rev (takeWhile (\<lambda>c. c \<noteq> CHR ''.'') (rev base))
         else [])"

text \<open>
  \<open>INVALID_S3_CHARACTERS_REGEX\<close> lives in sga/backend/constants.py. It is a parameter
  here: the class of characters the pattern matches. \<open>re.sub\<close> scans the path from
  the left and puts the replacement in the place of every match.
\<close>

fun re_sub :: "(char \<Rightarrow> bool) \<Rightarrow> string \<Rightarrow> string \<Rightarrow> string" where
  "re_sub invalid repl [] = []"
| "re_sub invalid repl (c # cs) =
     (if invalid c then repl @ re_sub invalid repl cs else c # re_sub invalid repl cs)"

definition convert_illegal_S3_chars :: "(char \<Rightarrow> bool) \<Rightarrow> string \<Rightarrow> string \<Rightarrow> string" where
  "convert_illegal_S3_chars invalid path replace_with = re_sub invalid replace_with path"

text \<open>
  What the path builders read from the submission instance:
  \<open>instance.assignment.course.edx_id\<close>, \<open>instance.assignment.edx_id\<close>,
  \<open>instance.student.username\<close> and \<open>instance.assignment.name\<close>.
\<close>

record upload_instance =
  inst_course_edx_id :: string
  inst_assignment_edx_id :: string
  inst_username :: string
  inst_assignment_name :: string

definition student_submission_file_path ::
  "(char \<Rightarrow> bool) \<Rightarrow> upload_instance \<Rightarrow> string \<Rightarrow> string" where
  "student_submission_file_path invalid inst filename =
     (let path = inst_course_edx_id inst @ ''/student-uploads/'' @ inst_assignment_edx_id inst
                 @ ''/'' @ inst_username inst @ ''-'' @ inst_assignment_name inst
                 @ snd (splitext filename)
      in convert_illegal_S3_chars invalid path ''_'')"

definition grader_submission_file_path ::
  "(char \<Rightarrow> bool) \<Rightarrow> upload_instance \<Rightarrow> string \<Rightarrow> string" where
  "grader_submission_file_path invalid inst filename =
     (let path = inst_course_edx_id inst @ ''/grader-uploads/'' @ inst_assignment_edx_id inst
                 @ ''/'' @ inst_username inst @ ''-'' @ inst_assignment_name inst
                 @ snd (splitext filename)
      in convert_illegal_S3_chars invalid path ''_'')"

section \<open>Lookups\<close>

text \<open>
  \<open>Model.objects.get(**kwargs)\<close>: the one row that matches, \<open>DoesNotExist\<close> when
  none does, \<open>MultipleObjectsReturned\<close> when several do. The keyword arguments are
  the predicate the rows are filtered by.
\<close>

definition objects_get :: "'r list \<Rightarrow> ('r \<Rightarrow> bool) \<Rightarrow> exn + 'r" where
  "objects_get rows kwargs =
     (case filter kwargs rows of
        [] \<Rightarrow> Inl DoesNotExist
      | [r] \<Rightarrow> Inr r
      | _ \<Rightarrow> Inl MultipleObjectsReturned)"

text \<open>\<open>get_object_or_404\<close> turns \<open>DoesNotExist\<close>, and nothing else, into \<open>Http404\<close>.\<close>

definition get_object_or_404 :: "'r list \<Rightarrow> ('r \<Rightarrow> bool) \<Rightarrow> exn + 'r" where
  "get_object_or_404 rows kwargs =
     (case objects_get rows kwargs of
        Inl e \<Rightarrow> (if e = DoesNotExist then Inl Http404 else Inl e)
      | Inr obj \<Rightarrow> Inr obj)"

text \<open>
  \<open>CourseModel.get_or_404_check_course\<close>. The class \<open>cls\<close> is given by its table and
  by the accessor of its \<open>course_id\<close> column.
\<close>

definition get_or_404_check_course ::
  "'r list \<Rightarrow> ('r \<Rightarrow> nat) \<Rightarrow> nat \<Rightarrow> ('r \<Rightarrow> bool) \<Rightarrow> exn + 'r" where
  "get_or_404_check_course cls obj_course_id course_id kwargs =
     (case get_object_or_404 cls kwargs of
        Inl e \<Rightarrow> Inl e
      | Inr obj \<Rightarrow> if obj_course_id obj \<noteq> course_id then Inl PermissionDenied else Inr obj)"

section \<open>Role predicates (Course)\<close>

text \<open>
  \<open>course.students\<close> and \<open>course.graders\<close> are the users joined to the course
  through the Student and Grader rows; \<open>course.administrators\<close> is the plain
  many-to-many set kept with the course.
\<close>

definition course_students :: "db \<Rightarrow> course_row \<Rightarrow> nat list" where
  "course_students d c =
     map student_user (filter (\<lambda>s. student_course s = course_pk c) (student_table d))"

definition course_graders :: "db \<Rightarrow> course_row \<Rightarrow> nat list" where
  "course_graders d c =
     map grader_user (filter (\<lambda>g. grader_course g = course_pk c) (grader_table d))"

definition has_grader :: "db \<Rightarrow> course_row \<Rightarrow> user \<Rightarrow> bool" where
  "has_grader d c u = (user_pk u \<in> set (course_graders d c))"

definition has_student :: "db \<Rightarrow> course_row \<Rightarrow> user \<Rightarrow> bool" where
  "has_student d c u = (user_pk u \<in> set (course_students d c) \<and> \<not> has_grader d c u)"

definition has_admin :: "db \<Rightarrow> course_row \<Rightarrow> user \<Rightarrow> bool" where
  "has_admin d c u = (user_pk u \<in> set (administrators c))"

datatype role = RoleStudent | RoleGrader | RoleAdmin | RoleNone

text \<open>
  Modelled from the spec: \<open>get_role\<close> of sga/backend/authentication.py is not
  among the sources. The spec gives the role of a (user, course) pair as one of
  student, grader, admin or none, by membership lookup against the course's three
  relation sets, admin-membership and grader-membership both taking priority over
  student-membership. Admin is looked up before grader here.
\<close>

definition get_role :: "db \<Rightarrow> course_row \<Rightarrow> user \<Rightarrow> role" where
  "get_role d c u =
     (if has_admin d c u then RoleAdmin
      else if has_grader d c u then RoleGrader
      else if has_student d c u then RoleStudent
      else RoleNone)"

section \<open>Counters (Grader, Course, Assignment)\<close>

text \<open>\<open>.count()\<close> of a queryset is the number of its rows, a Python integer.\<close>

definition count :: "'r list \<Rightarrow> int" where
  "count rows = int (length rows)"

text \<open>\<open>assignment__course=c\<close>: the submission's assignment row belongs to course c.\<close>

definition assignment__course :: "db \<Rightarrow> nat \<Rightarrow> submission \<Rightarrow> bool" where
  "assignment__course d c s =
     list_ex (\<lambda>a. assignment_pk a = assignment s \<and> assignment_course a = c) (assignment_table d)"

text \<open>\<open>grader.students\<close>: the Student rows whose grader is this Grader row.\<close>

definition grader_students :: "db \<Rightarrow> grader_row \<Rightarrow> student_row list" where
  "grader_students d g = filter (\<lambda>s. student_grader s = Some (grader_pk g)) (student_table d)"

definition Grader_graded_submissions_count :: "db \<Rightarrow> grader_row \<Rightarrow> int" where
  "Grader_graded_submissions_count d g =
     count (filter (\<lambda>s. graded_by s = Some (grader_user g)
                        \<and> assignment__course d (grader_course g) s
                        \<and> submitted s \<and> graded s) (submission_table d))"

definition Grader_not_graded_submissions_count :: "db \<Rightarrow> grader_row \<Rightarrow> int" where
  "Grader_not_graded_submissions_count d g =
     (let student_users = map student_user (grader_students d g)
      in count (filter (\<lambda>s. student s \<in> set student_users
                             \<and> assignment__course d (grader_course g) s
                             \<and> submitted s \<and> \<not> graded s) (submission_table d)))"

definition available_student_slots_count :: "db \<Rightarrow> grader_row \<Rightarrow> int" where
  "available_student_slots_count d g = max_students g - count (grader_students d g)"

definition not_graded_submissions_count_by_student :: "db \<Rightarrow> course_row \<Rightarrow> student_row \<Rightarrow> int" where
  "not_graded_submissions_count_by_student d c st =
     count (filter (\<lambda>s. assignment__course d (course_pk c) s
                        \<and> student s = student_user st
                        \<and> submitted s \<and> \<not> graded s) (submission_table d))"

text \<open>\<open>assignment.submissions\<close>: the Submission rows of this assignment.\<close>

definition submissions :: "db \<Rightarrow> assignment_row \<Rightarrow> submission list" where
  "submissions d a = filter (\<lambda>s. assignment s = assignment_pk a) (submission_table d)"

definition graded_submissions_count :: "db \<Rightarrow> assignment_row \<Rightarrow> int" where
  "graded_submissions_count d a =
     count (filter (\<lambda>s. submitted s \<and> graded s) (submissions d a))"

text \<open>
  The two keyword arguments default to \<open>None\<close>. With both absent, \<open>grader.user\<close> is
  an attribute lookup on \<open>None\<close>.
\<close>

definition graded_submissions_count_by_grader ::
  "db \<Rightarrow> assignment_row \<Rightarrow> grader_row option \<Rightarrow> nat option \<Rightarrow> exn + int" where
  "graded_submissions_count_by_grader d a grader grader_user_arg =
     (case (case grader_user_arg of
              Some u \<Rightarrow> Inr u
            | None \<Rightarrow> (case grader of None \<Rightarrow> Inl AttributeError | Some g \<Rightarrow> Inr (grader_user g))) of
        Inl e \<Rightarrow> Inl e
      | Inr gu \<Rightarrow>
          Inr (count (filter (\<lambda>s. graded_by s = Some gu
                                  \<and> assignment s = assignment_pk a
                                  \<and> submitted s \<and> graded s) (submission_table d))))"

definition not_graded_submissions_count :: "db \<Rightarrow> assignment_row \<Rightarrow> int" where
  "not_graded_submissions_count d a =
     count (filter (\<lambda>s. submitted s \<and> \<not> graded s) (submissions d a))"

text \<open>\<open>Grader.objects.get(user=grader_user, course=self.course)\<close>.\<close>

definition grader_of_user :: "db \<Rightarrow> assignment_row \<Rightarrow> nat option \<Rightarrow> exn + grader_row" where
  "grader_of_user d a grader_user_arg =
     objects_get (grader_table d)
       (\<lambda>g. Some (grader_user g) = grader_user_arg \<and> grader_course g = assignment_course a)"

definition not_graded_submissions_count_by_grader ::
  "db \<Rightarrow> assignment_row \<Rightarrow> grader_row option \<Rightarrow> nat option \<Rightarrow> exn + int" where
  "not_graded_submissions_count_by_grader d a grader grader_user_arg =
     (case (case grader of Some g \<Rightarrow> Inr g | None \<Rightarrow> grader_of_user d a grader_user_arg) of
        Inl e \<Rightarrow> Inl e
      | Inr g \<Rightarrow>
          (let student_users = map student_user (grader_students d g)
           in Inr (count (filter (\<lambda>s. student s \<in> set student_users
                                      \<and> assignment s = assignment_pk a
                                      \<and> submitted s \<and> \<not> graded s) (submission_table d)))))"

text \<open>
  \<open>self.course\<close> is the Course row the assignment's foreign key points to; it is
  passed in, since only its students and graders are counted.
\<close>

definition not_submitted_submissions_count :: "db \<Rightarrow> course_row \<Rightarrow> assignment_row \<Rightarrow> int" where
  "not_submitted_submissions_count d c a =
     (let students_in_course = count (course_students d c) - count (course_graders d c)
      in students_in_course - graded_submissions_count d a - not_graded_submissions_count d a)"

definition not_submitted_submissions_count_by_grader ::
  "db \<Rightarrow> assignment_row \<Rightarrow> grader_row option \<Rightarrow> nat option \<Rightarrow> exn + int" where
  "not_submitted_submissions_count_by_grader d a grader grader_user_arg =
     (case (case grader of Some g \<Rightarrow> Inr g | None \<Rightarrow> grader_of_user d a grader_user_arg) of
        Inl e \<Rightarrow> Inl e
      | Inr g \<Rightarrow>
          (case graded_submissions_count_by_grader d a None (Some (grader_user g)) of
             Inl e \<Rightarrow> Inl e
           | Inr n_graded \<Rightarrow>
               (case not_graded_submissions_count_by_grader d a (Some g) None of
                  Inl e \<Rightarrow> Inl e
                | Inr n_not_graded \<Rightarrow>
                    Inr (count (grader_students d g) - n_graded - n_not_graded))))"

section \<open>Views (sga/views.py)\<close>

text \<open>
  A view takes the database, the time \<open>datetime.utcnow()\<close> returns, the request and
  the URL arguments. It returns the exception it raises, or its response and the
  database it leaves. The \<open>allowed_roles\<close> decorator belongs to
  sga/backend/authentication.py and is applied before the body modelled here.
\<close>

datatype http_method = GET | POST

record request =
  req_user :: nat
  req_method :: http_method
  post_valid :: bool
  post_description :: "string option"
  post_grade :: "int option"
  post_feedback :: "string option"
  post_document :: "document option"

datatype response = Render string | Redirect string

text \<open>
  \<open>instance.save()\<close>: the row with the instance's primary key is overwritten, and
  \<open>updated_on\<close> (\<open>auto_now\<close>) takes the current time.
\<close>

definition save :: "db \<Rightarrow> nat \<Rightarrow> submission \<Rightarrow> db" where
  "save d now s =
     d\<lparr>submission_table :=
         map (\<lambda>r. if submission_pk r = submission_pk s then s\<lparr>updated_on := now\<rparr> else r)
           (submission_table d)\<rparr>"

definition fresh_pk :: "submission list \<Rightarrow> nat" where
  "fresh_pk rows = Suc (fold max (map submission_pk rows) 0)"

text \<open>A new Submission row carries the defaults of the model's columns.\<close>

definition new_submission :: "nat \<Rightarrow> nat \<Rightarrow> nat \<Rightarrow> nat \<Rightarrow> submission" where
  "new_submission pk now student_arg assignment_arg =
     \<lparr>submission_pk = pk, assignment = assignment_arg, student = student_arg,
      graded_by = None, description = None, feedback = None, grade = None,
      submitted_at = None, graded_at = None, submitted = False, graded = False,
      student_document = None, grader_document = None,
      created_on = now, updated_on = now\<rparr>"

text \<open>\<open>Submission.objects.get_or_create(student=..., assignment=...)\<close>.\<close>

definition get_or_create :: "db \<Rightarrow> nat \<Rightarrow> nat \<Rightarrow> nat \<Rightarrow> exn + (submission \<times> db)" where
  "get_or_create d now student_arg assignment_arg =
     (case filter (\<lambda>s. student s = student_arg \<and> assignment s = assignment_arg)
             (submission_table d) of
        [] \<Rightarrow>
          (let s = new_submission (fresh_pk (submission_table d)) now student_arg assignment_arg
           in Inr (s, d\<lparr>submission_table := submission_table d @ [s]\<rparr>))
      | [s] \<Rightarrow> Inr (s, d)
      | _ \<Rightarrow> Inl MultipleObjectsReturned)"

text \<open>\<open>Student.objects.get(user__username=student_user_id)\<close>.\<close>

definition student_by_username :: "db \<Rightarrow> string \<Rightarrow> exn + student_row" where
  "student_by_username d student_user_id =
     objects_get (student_table d)
       (\<lambda>st. list_ex (\<lambda>u. user_pk u = student_user st \<and> username u = student_user_id)
                (user_table d))"

text \<open>
  Modelled from the spec: the two forms of sga/forms.py are not among the sources.
  The student's form carries the uploaded document and the description; the grader's
  form carries the grade, the feedback and the graded document. \<open>form.save()\<close>
  writes the form's fields to the instance and saves it. Whether the form is valid is
  the request's \<open>post_valid\<close>.
\<close>

definition student_form_save :: "request \<Rightarrow> submission \<Rightarrow> submission" where
  "student_form_save r s =
     s\<lparr>description := post_description r, student_document := post_document r\<rparr>"

definition grader_form_save :: "request \<Rightarrow> submission \<Rightarrow> submission" where
  "grader_form_save r s =
     s\<lparr>grade := post_grade r, feedback := post_feedback r, grader_document := post_document r\<rparr>"

text \<open>The \<open>try\<close> block of \<open>view_submission_as_student\<close>.\<close>

definition student_lookup ::
  "db \<Rightarrow> nat \<Rightarrow> request \<Rightarrow> string \<Rightarrow> exn + (assignment_row \<times> submission \<times> db)" where
  "student_lookup d now r assignment_id =
     (case objects_get (assignment_table d) (\<lambda>a. assignment_edx_id a = assignment_id) of
        Inl e \<Rightarrow> Inl e
      | Inr a \<Rightarrow>
          (case get_or_create d now (req_user r) (assignment_pk a) of
             Inl e \<Rightarrow> Inl e
           | Inr (s, d') \<Rightarrow> Inr (a, s, d')))"

definition view_submission_as_student ::
  "db \<Rightarrow> nat \<Rightarrow> request \<Rightarrow> string \<Rightarrow> exn + (response \<times> db)" where
  "view_submission_as_student d now r assignment_id =
     (case student_lookup d now r assignment_id of
        Inl e \<Rightarrow> Inl Http404
      | Inr (a, s, d') \<Rightarrow>
          if req_method r = POST \<and> post_valid r then
            (let s1 = student_form_save r s;
                 d1 = save d' now s1;
                 s2 = s1\<lparr>submitted := True, submitted_at := Some now\<rparr>
             in Inr (Render ''sga/view_submission_as_student.html'', save d1 now s2))
          else Inr (Render ''sga/view_submission_as_student.html'', d'))"

text \<open>
  The \<open>try\<close> block of \<open>view_submission_as_staff\<close> and of \<open>unsubmit_submission\<close>.
\<close>

definition staff_lookup ::
  "db \<Rightarrow> nat \<Rightarrow> string \<Rightarrow> string \<Rightarrow> exn + (assignment_row \<times> student_row \<times> submission \<times> db)" where
  "staff_lookup d now assignment_id student_user_id =
     (case objects_get (assignment_table d) (\<lambda>a. assignment_edx_id a = assignment_id) of
        Inl e \<Rightarrow> Inl e
      | Inr a \<Rightarrow>
          (case student_by_username d student_user_id of
             Inl e \<Rightarrow> Inl e
           | Inr st \<Rightarrow>
               (case get_or_create d now (student_user st) (assignment_pk a) of
                  Inl e \<Rightarrow> Inl e
                | Inr (s, d') \<Rightarrow> Inr (a, st, s, d'))))"

text \<open>
  The link to the next ungraded submission only reads the database and goes into the
  rendered page; it is left out of the response.
\<close>

definition view_submission_as_staff ::
  "db \<Rightarrow> nat \<Rightarrow> request \<Rightarrow> string \<Rightarrow> string \<Rightarrow> exn + (response \<times> db)" where
  "view_submission_as_staff d now r assignment_id student_user_id =
     (case staff_lookup d now assignment_id student_user_id of
        Inl e \<Rightarrow> Inl Http404
      | Inr (a, st, s, d') \<Rightarrow>
          if req_method r = POST \<and> post_valid r then
            (let s1 = grader_form_save r s;
                 d1 = save d' now s1;
                 s2 = s1\<lparr>graded_at := Some now, graded_by := Some (req_user r), graded := True\<rparr>
             in Inr (Render ''sga/view_submission_as_staff.html'', save d1 now s2))
          else Inr (Render ''sga/view_submission_as_staff.html'', d'))"

definition unsubmit_submission ::
  "db \<Rightarrow> nat \<Rightarrow> request \<Rightarrow> string \<Rightarrow> string \<Rightarrow> exn + (response \<times> db)" where
  "unsubmit_submission d now r assignment_id student_user_id =
     (case staff_lookup d now assignment_id student_user_id of
        Inl e \<Rightarrow> Inl Http404
      | Inr (a, st, s, d') \<Rightarrow>
          (let s1 = s\<lparr>submitted := False, graded := False\<rparr>
           in Inr (Redirect ''view_submission_as_staff'', save d' now s1)))"

text \<open>
  A call of one of the three views. A call that raises leaves the database as it
  found it: the only exception of a body is the \<open>Http404\<close> of its \<open>try\<close> block,
  raised before anything is written.
\<close>

datatype view_call =
    StudentSubmit request string
  | StaffGrade request string string
  | AdminUnsubmit request string string

definition call_view :: "db \<Rightarrow> nat \<Rightarrow> view_call \<Rightarrow> exn + (response \<times> db)" where
  "call_view d now c =
     (case c of
        StudentSubmit r assignment_id \<Rightarrow> view_submission_as_student d now r assignment_id
      | StaffGrade r assignment_id student_user_id \<Rightarrow>
          view_submission_as_staff d now r assignment_id student_user_id
      | AdminUnsubmit r assignment_id student_user_id \<Rightarrow>
          unsubmit_submission d now r assignment_id student_user_id)"

definition step :: "db \<Rightarrow> nat \<Rightarrow> view_call \<Rightarrow> db" where
  "step d now c = (case call_view d now c of Inl e \<Rightarrow> d | Inr (resp, d') \<Rightarrow> d')"

text \<open>
  The states the views reach from a database in which no submission has been created
  yet.
\<close>

inductive reachable :: "db \<Rightarrow> bool" where
  initial: "submission_table d = [] \<Longrightarrow> reachable d"
| after_view: "reachable d \<Longrightarrow> reachable (step d now c)"

text \<open>The invariant of one Submission row.\<close>

definition timestamps_ok :: "submission \<Rightarrow> bool" where
  "timestamps_ok s =
     ((graded s \<longrightarrow> graded_at s \<noteq> None \<and> graded_by s \<noteq> None)
      \<and> (submitted s \<longrightarrow> submitted_at s \<noteq> None))"

section \<open>Streaming zip export (sga/backend/files.py)\<close>

text \<open>
  The bytes the zip writer puts into its buffer are kept as the records of the zip
  format they encode: the local header and compressed data of one entry, or the
  central directory with its end record, which lists the entries of the archive.
  \<open>ZipFile.writestr\<close> appends an entry's local record to the buffer and notes the
  entry; leaving the \<open>with\<close> block closes the archive, which appends the central
  directory.
\<close>

datatype zip_record = LocalEntry string string | CentralDirectory "string list"

type_synonym bytes_io = "zip_record list"

definition getvalue :: "bytes_io \<Rightarrow> zip_record list" where
  "getvalue b = b"

text \<open>
  The first argument of \<open>writestr\<close> is the name of the entry. The generator passes
  \<open>submission.student_document\<close>, the field's file object, not its name. The writer
  builds \<open>ZipInfo(filename=...)\<close> from the argument, and the constructor calls
  \<open>filename.find(chr(0))\<close>: a string has \<open>find\<close>, the file object has not, and
  the call raises \<open>AttributeError\<close> before anything is written.
\<close>

datatype zinfo_or_arcname = ArcName string | FieldFile document

definition writestr ::
  "string list \<times> bytes_io \<Rightarrow> zinfo_or_arcname \<Rightarrow> string \<Rightarrow> exn + (string list \<times> bytes_io)" where
  "writestr z arcname data =
     (case arcname of
        ArcName n \<Rightarrow> Inr (fst z @ [n], snd z @ [LocalEntry n data])
      | FieldFile f \<Rightarrow> Inl AttributeError)"

definition close :: "string list \<times> bytes_io \<Rightarrow> bytes_io" where
  "close z = snd z @ [CentralDirectory (fst z)]"

text \<open>
  \<open>bytes_io.empty()\<close>: \<open>io.BytesIO\<close> has no attribute \<open>empty\<close>, so the attribute
  lookup raises \<open>AttributeError\<close> and the buffer is left as it is.
\<close>

definition empty :: "bytes_io \<Rightarrow> exn + bytes_io" where
  "empty b = Inl AttributeError"

text \<open>
  What a consumer that exhausts the generator sees: the chunks yielded so far, and
  whether the generator finished or raised.
\<close>

datatype generated = Finished "zip_record list list" | Raised "zip_record list list" exn

text \<open>
  The loop of the generator, over the submissions still to come; \<open>z\<close> is the open
  archive with its buffer, \<open>chunks\<close> the chunks already yielded. The arguments of
  \<open>writestr\<close> are evaluated first: \<open>submission.student_document.read()\<close> raises
  \<open>ValueError\<close> when the field holds no file.
\<close>

fun zip_loop :: "string list \<times> bytes_io \<Rightarrow> zip_record list list \<Rightarrow> submission list \<Rightarrow> generated" where
  "zip_loop z chunks [] = Finished (chunks @ [getvalue (close z)])"
| "zip_loop z chunks (s # rest) =
     (case student_document s of
        None \<Rightarrow> Raised chunks ValueError
      | Some doc \<Rightarrow>
          (case writestr z (FieldFile doc) (doc_bytes doc) of
             Inl e \<Rightarrow> Raised chunks e
           | Inr z1 \<Rightarrow>
               (let chunks1 = chunks @ [getvalue (snd z1)]
                in case empty (snd z1) of
                     Inl e \<Rightarrow> Raised chunks1 e
                   | Inr b \<Rightarrow> zip_loop (fst z1, b) chunks1 rest)))"

definition submissions_zip_generator :: "submission list \<Rightarrow> generated" where
  "submissions_zip_generator subs = zip_loop ([], []) [] subs"

text \<open>
  Reading an archive back: the central directory is its last record, and the records
  before it are the local records of exactly the entries it lists, in order.
\<close>

fun local_entry :: "zip_record \<Rightarrow> (string \<times> string) option" where
  "local_entry (LocalEntry n data) = Some (n, data)"
| "local_entry (CentralDirectory ns) = None"

definition read_zip :: "zip_record list \<Rightarrow> (string \<times> string) list option" where
  "read_zip recs =
     (case rev recs of
        CentralDirectory ns # before \<Rightarrow>
          (let entries = map local_entry (rev before)
           in if None \<notin> set entries \<and> map (fst \<circ> the) entries = ns
              then Some (map the entries) else None)
      | _ \<Rightarrow> None)"

section \<open>Example databases\<close>

text \<open>
  Students in scope of an assignment's course: the users \<open>has_student\<close> accepts, that
  is the users of the course's Student rows who are not graders of the course.
\<close>

definition eligible_students :: "db \<Rightarrow> course_row \<Rightarrow> nat list" where
  "eligible_students d c = filter (\<lambda>u. u \<notin> set (course_graders d c)) (course_students d c)"

text \<open>A Submission row of the assignment exists for every eligible student.\<close>

definition all_materialized :: "db \<Rightarrow> course_row \<Rightarrow> assignment_row \<Rightarrow> bool" where
  "all_materialized d c a =
     list_all (\<lambda>u. list_ex (\<lambda>s. student s = u \<and> assignment s = assignment_pk a)
                     (submission_table d))
       (eligible_students d c)"

text \<open>The submission's student is on the grader's roster.\<close>

definition on_roster :: "db \<Rightarrow> grader_row \<Rightarrow> submission \<Rightarrow> bool" where
  "on_roster d g s =
     list_ex (\<lambda>st. student_user st = student s \<and> student_grader st = Some (grader_pk g))
       (student_table d)"

definition alice :: user where
  "alice = \<lparr>user_pk = 1, username = ''alice''\<rparr>"

definition bob :: user where
  "bob = \<lparr>user_pk = 2, username = ''bob''\<rparr>"

definition carol :: user where
  "carol = \<lparr>user_pk = 3, username = ''carol''\<rparr>"

definition cs101 :: course_row where
  "cs101 = \<lparr>course_pk = 1, course_edx_id = ''cs101'', administrators = [3]\<rparr>"

definition hw1 :: assignment_row where
  "hw1 = \<lparr>assignment_pk = 1, assignment_edx_id = ''hw1'', name = ''Homework 1'',
          assignment_course = 1\<rparr>"

definition alice_student :: student_row where
  "alice_student = \<lparr>student_pk = 1, student_grader = None, student_user = 1, student_course = 1\<rparr>"

definition bob_student :: student_row where
  "bob_student = \<lparr>student_pk = 2, student_grader = None, student_user = 2, student_course = 1\<rparr>"

definition carol_student :: student_row where
  "carol_student = \<lparr>student_pk = 3, student_grader = None, student_user = 3, student_course = 1\<rparr>"

definition alice_elsewhere :: student_row where
  "alice_elsewhere = \<lparr>student_pk = 4, student_grader = None, student_user = 1, student_course = 2\<rparr>"

definition bob_grader :: grader_row where
  "bob_grader = \<lparr>grader_pk = 1, max_students = 10, grader_user = 2, grader_course = 1\<rparr>"

text \<open>Alice's submission for hw1: as created, and as graded 85 by bob.\<close>

definition alice_new :: submission where
  "alice_new = new_submission 1 0 1 1"

definition alice_graded :: submission where
  "alice_graded =
     \<lparr>submission_pk = 1, assignment = 1, student = 1,
      graded_by = Some 2, description = Some ''my essay'', feedback = Some ''good'',
      grade = Some 85, submitted_at = Some 10, graded_at = Some 20,
      submitted = True, graded = True,
      student_document = Some \<lparr>doc_name = ''essay.pdf'', doc_bytes = ''x''\<rparr>,
      grader_document = None, created_on = 0, updated_on = 20\<rparr>"

text \<open>
  The course as the test fixtures of sga/tests/common.py build it: a student, and a
  grader who has a Grader row and no Student row.
\<close>

definition db_fixture :: db where
  "db_fixture =
     \<lparr>user_table = [alice, bob, carol], course_table = [cs101], grader_table = [bob_grader],
      student_table = [alice_student], assignment_table = [hw1],
      submission_table = [alice_new]\<rparr>"

text \<open>The same course when the grader also has a Student row.\<close>

definition db_grader_enrolled :: db where
  "db_grader_enrolled = db_fixture\<lparr>student_table := [alice_student, bob_student]\<rparr>"

text \<open>The administrator carol also has a Student row.\<close>

definition db_admin_enrolled :: db where
  "db_admin_enrolled = db_fixture\<lparr>student_table := [alice_student, carol_student]\<rparr>"

text \<open>Bob has graded alice's submission; alice is on nobody's roster.\<close>

definition db_graded :: db where
  "db_graded = db_fixture\<lparr>submission_table := [alice_graded]\<rparr>"

text \<open>Alice is a student of two courses.\<close>

definition db_two_courses :: db where
  "db_two_courses = db_fixture\<lparr>student_table := [alice_student, alice_elsewhere]\<rparr>"

text \<open>No submission has been created yet.\<close>

definition db_start :: db where
  "db_start = db_fixture\<lparr>submission_table := []\<rparr>"

definition submit_request :: request where
  "submit_request =
     \<lparr>req_user = 1, req_method = POST, post_valid = True,
      post_description = Some ''my essay'', post_grade = None, post_feedback = None,
      post_document = Some \<lparr>doc_name = ''essay.pdf'', doc_bytes = ''x''\<rparr>\<rparr>"

definition grade_request :: request where
  "grade_request =
     \<lparr>req_user = 2, req_method = POST, post_valid = True,
      post_description = None, post_grade = Some 85, post_feedback = Some ''good'',
      post_document = None\<rparr>"

text \<open>Alice submits hw1 at time 10, and bob grades the submission at time 20.\<close>

definition db_after_grading :: db where
  "db_after_grading =
     step (step db_start 10 (StudentSubmit submit_request ''hw1''))
       20 (StaffGrade grade_request ''hw1'' ''alice'')"

section \<open>Grade display\<close>

lemma str_nat_85: "str_nat 85 = ''85''"
  by (simp add: digit_char_def)

lemma grade_display_85: "grade_display (s\<lparr>grade := Some 85\<rparr>) = ''85/100 (85%)''"
  by (simp add: grade_display_def str_int_def digit_char_def)

lemma grade_display_nonzero:
  "grade s = Some g \<Longrightarrow> g \<noteq> 0 \<Longrightarrow> grade_display s = str_int g @ ''/100 ('' @ str_int g @ ''%)''"
  by (simp add: grade_display_def)

lemma grade_display_absent: "grade s = None \<Longrightarrow> grade_display s = ''(Not Graded)''"
  by (simp add: grade_display_def)

text \<open>
  C4. \<open>grade_display\<close> is claimed to render every grade that is present, the grade 0
  included, as \<open>{grade}/100 ({grade}%)\<close>. The code tests the truth value of the
  grade: a submission graded 0 is displayed as \<open>(Not Graded)\<close>, while one graded 85
  is displayed as \<open>85/100 (85%)\<close>.
\<close>

theorem grade_display_zero_not_graded:
  "grade_display (s\<lparr>grade := Some 0\<rparr>) = ''(Not Graded)''
   \<and> grade_display (s\<lparr>grade := Some 85\<rparr>) = ''85/100 (85%)''"
  by (simp add: grade_display_def str_int_def digit_char_def)

section \<open>Upload paths\<close>

lemma re_sub_single: "re_sub invalid [r] p = map (\<lambda>c. if invalid c then r else c) p"
  by (induction p) auto

lemma splitext_essay: "splitext ''essay.pdf'' = (''essay'', ''.pdf'')"
  by (simp add: splitext_def rfind_def Let_def upt_rec)

lemma splitext_hidden: "splitext ''.bashrc'' = (''.bashrc'', [])"
  by (simp add: splitext_def rfind_def Let_def upt_rec)

lemma splitext_dotted_directory: "splitext ''a.b/c'' = (''a.b/c'', [])"
  by (simp add: splitext_def rfind_def Let_def upt_rec)

lemma rfind_Nil: "rfind [] c = - 1"
  by (simp add: rfind_def)

lemma rfind_snoc: "rfind (p @ [x]) c = (if x = c then int (length p) else rfind p c)"
proof -
  have "filter (\<lambda>i. (p @ [x]) ! i = c) (rev [0..<length p])
          = filter (\<lambda>i. p ! i = c) (rev [0..<length p])"
    by (rule filter_cong) (auto simp: nth_append)
  then show ?thesis by (simp add: rfind_def)
qed

lemma rfind_notin: "c \<notin> set p \<Longrightarrow> rfind p c = - 1"
  by (induction p rule: rev_induct) (auto simp: rfind_Nil rfind_snoc)

lemma rfind_last: "c \<notin> set ys \<Longrightarrow> rfind (xs @ c # ys) c = int (length xs)"
proof (induction ys rule: rev_induct)
  case Nil
  show ?case by (simp add: rfind_snoc)
next
  case (snoc y ys)
  have "rfind ((xs @ c # ys) @ [y]) c = rfind (xs @ c # ys) c"
    using snoc.prems by (simp only: rfind_snoc) auto
  with snoc show ?case by simp
qed

lemma splitext_scan_iff:
  "0 \<le> i \<Longrightarrow> splitext_scan p i j \<longleftrightarrow> (\<exists>k. i \<le> k \<and> k < j \<and> p ! nat k \<noteq> CHR ''.'')"
proof (induction p i j rule: splitext_scan.induct)
  case (1 p i j)
  show ?case
  proof (cases "i < j")
    case False
    then show ?thesis by (subst splitext_scan.simps) auto
  next
    case True
    show ?thesis
    proof (cases "p ! nat i \<noteq> CHR ''.''")
      case nd: True
      with True show ?thesis by (subst splitext_scan.simps) auto
    next
      case dot: False
      have "splitext_scan p i j = splitext_scan p (i + 1) j"
        using True dot by (subst splitext_scan.simps) simp
      also have "\<dots> \<longleftrightarrow> (\<exists>k. i + 1 \<le> k \<and> k < j \<and> p ! nat k \<noteq> CHR ''.'')"
        using "1.IH" [OF True] dot "1.prems" by simp
      also have "\<dots> \<longleftrightarrow> (\<exists>k. i \<le> k \<and> k < j \<and> p ! nat k \<noteq> CHR ''.'')"
      proof
        assume "\<exists>k. i + 1 \<le> k \<and> k < j \<and> p ! nat k \<noteq> CHR ''.''"
        then obtain k where k: "i + 1 \<le> k" "k < j" "p ! nat k \<noteq> CHR ''.''" by blast
        from k(1) have "i \<le> k" by simp
        with k show "\<exists>k. i \<le> k \<and> k < j \<and> p ! nat k \<noteq> CHR ''.''" by blast
      next
        assume "\<exists>k. i \<le> k \<and> k < j \<and> p ! nat k \<noteq> CHR ''.''"
        then obtain k where k: "i \<le> k" "k < j" "p ! nat k \<noteq> CHR ''.''" by blast
        with dot have "k \<noteq> i" by auto
        with k(1) have "i + 1 \<le> k" by simp
        with k show "\<exists>k. i + 1 \<le> k \<and> k < j \<and> p ! nat k \<noteq> CHR ''.''" by blast
      qed
      finally show ?thesis .
    qed
  qed
qed

text \<open>Scanning the segment between two positions of a concatenation.\<close>

lemma scan_segment:
  "splitext_scan (pre @ mid @ rest) (int (length pre)) (int (length pre + length mid))
     \<longleftrightarrow> (\<exists>c \<in> set mid. c \<noteq> CHR ''.'')"
proof -
  have "splitext_scan (pre @ mid @ rest) (int (length pre)) (int (length pre + length mid))
     \<longleftrightarrow> (\<exists>k. int (length pre) \<le> k \<and> k < int (length pre + length mid)
              \<and> (pre @ mid @ rest) ! nat k \<noteq> CHR ''.'')"
    by (rule splitext_scan_iff) simp
  also have "\<dots> \<longleftrightarrow> (\<exists>n < length mid. mid ! n \<noteq> CHR ''.'')"
  proof
    assume "\<exists>k. int (length pre) \<le> k \<and> k < int (length pre + length mid)
              \<and> (pre @ mid @ rest) ! nat k \<noteq> CHR ''.''"
    then obtain k where k: "int (length pre) \<le> k" "k < int (length pre + length mid)"
      "(pre @ mid @ rest) ! nat k \<noteq> CHR ''.''" by blast
    let ?n = "nat k - length pre"
    have "?n < length mid" using k by auto
    moreover have "(pre @ mid @ rest) ! nat k = mid ! ?n"
      using k by (auto simp: nth_append)
    ultimately show "\<exists>n < length mid. mid ! n \<noteq> CHR ''.''" using k by auto
  next
    assume "\<exists>n < length mid. mid ! n \<noteq> CHR ''.''"
    then obtain n where n: "n < length mid" "mid ! n \<noteq> CHR ''.''" by blast
    let ?k = "int (length pre + n)"
    have nk: "nat ?k = length pre + n" by (rule nat_int)
    have v: "(pre @ mid @ rest) ! nat ?k = mid ! n"
      unfolding nk using n by (simp add: nth_append)
    show "\<exists>k. int (length pre) \<le> k \<and> k < int (length pre + length mid)
              \<and> (pre @ mid @ rest) ! nat k \<noteq> CHR ''.''"
    proof (rule exI [of _ ?k], intro conjI)
      show "int (length pre) \<le> ?k" by simp
      show "?k < int (length pre + length mid)" using n by simp
      show "(pre @ mid @ rest) ! nat ?k \<noteq> CHR ''.''" unfolding v by (rule n(2))
    qed
  qed
  also have "\<dots> \<longleftrightarrow> (\<exists>c \<in> set mid. c \<noteq> CHR ''.'')"
  proof
    assume "\<exists>n < length mid. mid ! n \<noteq> CHR ''.''"
    then obtain n where n: "n < length mid" "mid ! n \<noteq> CHR ''.''" by blast
    from n(1) have "mid ! n \<in> set mid" by (rule nth_mem)
    with n(2) show "\<exists>c \<in> set mid. c \<noteq> CHR ''.''" by blast
  next
    assume "\<exists>c \<in> set mid. c \<noteq> CHR ''.''"
    then obtain c where c: "c \<in> set mid" "c \<noteq> CHR ''.''" by blast
    from c(1) obtain n where "n < length mid" "mid ! n = c"
      unfolding in_set_conv_nth by blast
    with c(2) show "\<exists>n < length mid. mid ! n \<noteq> CHR ''.''" by blast
  qed
  finally show ?thesis .
qed


lemma rfind_append_notin: "c \<notin> set ys \<Longrightarrow> rfind (xs @ ys) c = rfind xs c"
proof (induction ys rule: rev_induct)
  case Nil
  show ?case by simp
next
  case (snoc y ys)
  have "rfind ((xs @ ys) @ [y]) c = rfind (xs @ ys) c"
    using snoc.prems by (simp only: rfind_snoc) auto
  with snoc show ?case by simp
qed

lemma rfind_less: "rfind p c < int (length p)"
  by (induction p rule: rev_induct) (auto simp: rfind_Nil rfind_snoc)

lemma tail_after_last:
  "c \<notin> set ys \<Longrightarrow> rev (takeWhile (\<lambda>x. x \<noteq> c) (rev (xs @ c # ys))) = ys"
proof -
  assume n: "c \<notin> set ys"
  have "takeWhile (\<lambda>x. x \<noteq> c) (rev ys @ c # rev xs) = takeWhile (\<lambda>x. x \<noteq> c) (rev ys)"
    by (rule takeWhile_tail) simp
  also have "\<dots> = rev ys"
    using n by auto
  finally show ?thesis by simp
qed

lemma tail_without: "c \<notin> set p \<Longrightarrow> rev (takeWhile (\<lambda>x. x \<noteq> c) (rev p)) = p"
proof -
  assume "c \<notin> set p"
  then have "takeWhile (\<lambda>x. x \<noteq> c) (rev p) = rev p" by auto
  then have "rev (takeWhile (\<lambda>x. x \<noteq> c) (rev p)) = rev (rev p)" by (rule arg_cong)
  then show ?thesis by (simp only: rev_rev_ident)
qed

text \<open>The directory part and the base name of a path.\<close>

lemma base_name_split:
  obtains pre base where "p = pre @ base" "CHR ''/'' \<notin> set base"
    "rfind p CHR ''/'' + 1 = int (length pre)"
    "rev (takeWhile (\<lambda>c. c \<noteq> CHR ''/'') (rev p)) = base"
proof (cases "CHR ''/'' \<in> set p")
  case False
  then have "rfind p CHR ''/'' + 1 = int (length ([] :: string))"
    by (simp add: rfind_notin)
  moreover have "rev (takeWhile (\<lambda>c. c \<noteq> CHR ''/'') (rev p)) = p"
    using False by (rule tail_without)
  ultimately show ?thesis using False that [of "[]" p] by simp
next
  case True
  then obtain xs ys where p: "p = xs @ CHR ''/'' # ys" and n: "CHR ''/'' \<notin> set ys"
    by (auto dest: split_list_last)
  have "rfind p CHR ''/'' + 1 = int (length (xs @ [CHR ''/'']))"
    using n by (simp add: p rfind_last)
  moreover have "rev (takeWhile (\<lambda>c. c \<noteq> CHR ''/'') (rev p)) = ys"
    unfolding p using n by (rule tail_after_last)
  ultimately show ?thesis using n p that [of "xs @ [CHR ''/'']" ys] by simp
qed

lemma splitext_original_extension: "snd (splitext p) = original_extension p"
proof -
  obtain pre base where p: "p = pre @ base" and nb: "CHR ''/'' \<notin> set base"
    and sep: "rfind p CHR ''/'' + 1 = int (length pre)"
    and base: "rev (takeWhile (\<lambda>c. c \<noteq> CHR ''/'') (rev p)) = base"
    by (rule base_name_split)
  show ?thesis
  proof (cases "CHR ''.'' \<in> set base")
    case False
    have "rfind p CHR ''.'' = rfind pre CHR ''.''"
      unfolding p using False by (rule rfind_append_notin)
    also have "\<dots> < int (length pre)" by (rule rfind_less)
    finally have "\<not> rfind p CHR ''.'' > rfind p CHR ''/''"
      using sep by simp
    then have l: "snd (splitext p) = []"
      by (simp add: splitext_def Let_def)
    have "CHR ''.'' \<notin> set (dropWhile (\<lambda>c. c = CHR ''.'') base)"
      using False by (auto dest: set_dropWhileD)
    then have "original_extension p = []"
      by (simp add: original_extension_def base Let_def)
    with l show ?thesis by simp
  next
    case True
    then obtain b1 b2 where b: "base = b1 @ CHR ''.'' # b2" and n2: "CHR ''.'' \<notin> set b2"
      by (auto dest: split_list_last)
    have pp: "p = (pre @ b1) @ CHR ''.'' # b2"
      by (simp add: p b)
    have "rfind ((pre @ b1) @ CHR ''.'' # b2) CHR ''.'' = int (length (pre @ b1))"
      using n2 by (rule rfind_last)
    then have dot: "rfind p CHR ''.'' = int (length pre + length b1)"
      by (simp add: pp)
    have gt: "rfind p CHR ''.'' > rfind p CHR ''/''"
      using dot sep by simp
    have scan: "splitext_scan p (rfind p CHR ''/'' + 1) (rfind p CHR ''.'')
                  \<longleftrightarrow> (\<exists>c \<in> set b1. c \<noteq> CHR ''.'')"
      unfolding sep dot unfolding p b by (rule scan_segment)
    have tl: "rev (takeWhile (\<lambda>c. c \<noteq> CHR ''.'') (rev base)) = b2"
      unfolding b using n2 by (rule tail_after_last)
    show ?thesis
    proof (cases "\<exists>c \<in> set b1. c \<noteq> CHR ''.''")
      case some: True
      then obtain c where c: "c \<in> set b1" "\<not> c = CHR ''.''" by blast
      have "drop (nat (rfind p CHR ''.'')) p = CHR ''.'' # b2"
        unfolding dot by (simp add: pp)
      then have l: "snd (splitext p) = CHR ''.'' # b2"
        using gt scan some by (simp add: splitext_def Let_def)
      have "dropWhile (\<lambda>c. c = CHR ''.'') base = dropWhile (\<lambda>c. c = CHR ''.'') b1 @ CHR ''.'' # b2"
        unfolding b using c by (rule dropWhile_append1)
      then have "CHR ''.'' \<in> set (dropWhile (\<lambda>c. c = CHR ''.'') base)"
        by simp
      then have "original_extension p = CHR ''.'' # b2"
        by (simp add: original_extension_def base tl Let_def)
      with l show ?thesis by simp
    next
      case none: False
      then have l: "snd (splitext p) = []"
        using scan by (simp add: splitext_def Let_def)
      have "dropWhile (\<lambda>c. c = CHR ''.'') base = dropWhile (\<lambda>c. c = CHR ''.'') (CHR ''.'' # b2)"
        unfolding b using none by (intro dropWhile_append2) auto
      then have "set (dropWhile (\<lambda>c. c = CHR ''.'') base) \<subseteq> set b2"
        by (auto dest: set_dropWhileD)
      with n2 have "CHR ''.'' \<notin> set (dropWhile (\<lambda>c. c = CHR ''.'') base)"
        by blast
      then have "original_extension p = []"
        by (simp add: original_extension_def base Let_def)
      with l show ?thesis by simp
    qed
  qed
qed

lemma splitext_concat: "fst (splitext p) @ snd (splitext p) = p"
  by (simp add: splitext_def Let_def)

lemma original_extension_examples:
  "original_extension ''essay.pdf'' = ''.pdf''"
  "original_extension ''archive.tar.gz'' = ''.gz''"
  "original_extension ''.bashrc'' = []"
  "original_extension ''a.b/c'' = []"
  "original_extension ''a.b/.c.txt'' = ''.txt''"
  by (simp_all add: original_extension_def)

text \<open>
  C3. Both path builders return
  \<open>{course_id}/{role}-uploads/{assignment_id}/{username}-{assignment_name}{original_extension}\<close>,
  with role student or grader and the extension of the original filename (a suffix of
  it), in which every character of the whole path that the invalid-character pattern
  matches is replaced by an underscore. The result is a function of the inputs alone.
\<close>

theorem upload_path_sanitized:
  "student_submission_file_path invalid inst filename =
     map (\<lambda>c. if invalid c then CHR ''_'' else c)
       (inst_course_edx_id inst @ ''/student-uploads/'' @ inst_assignment_edx_id inst @ ''/''
        @ inst_username inst @ ''-'' @ inst_assignment_name inst @ original_extension filename)
   \<and> grader_submission_file_path invalid inst filename =
     map (\<lambda>c. if invalid c then CHR ''_'' else c)
       (inst_course_edx_id inst @ ''/grader-uploads/'' @ inst_assignment_edx_id inst @ ''/''
        @ inst_username inst @ ''-'' @ inst_assignment_name inst @ original_extension filename)
   \<and> fst (splitext filename) @ original_extension filename = filename"
proof -
  have ext: "snd (splitext filename) = original_extension filename"
    by (rule splitext_original_extension)
  have whole: "fst (splitext filename) @ original_extension filename = filename"
    using splitext_concat [of filename] by (simp only: ext)
  show ?thesis
    unfolding student_submission_file_path_def grader_submission_file_path_def
      convert_illegal_S3_chars_def Let_def ext
    using whole by (simp only: re_sub_single simp_thms)
qed

text \<open>The spec's scenario, with a pattern that matches the colon only.\<close>

lemma upload_path_alice:
  "student_submission_file_path (\<lambda>c. c = CHR '':'')
     \<lparr>inst_course_edx_id = ''cs101'', inst_assignment_edx_id = ''hw1'',
      inst_username = ''alice'', inst_assignment_name = ''Homework 1''\<rparr> ''essay.pdf''
   = ''cs101/student-uploads/hw1/alice-Homework 1.pdf''"
  by (simp add: student_submission_file_path_def convert_illegal_S3_chars_def splitext_essay)

section \<open>Course-scoped lookup\<close>

text \<open>
  C10. \<open>get_or_404_check_course\<close>: when the keyword arguments find a record whose
  course id differs from the given one, the outcome is \<open>PermissionDenied\<close>, not
  \<open>Http404\<close>; the record is returned exactly when the keyword arguments find it and
  its course id is the given one.
\<close>

theorem check_course_outcomes:
  "(filter kwargs cls = [obj] \<and> obj_course_id obj \<noteq> course_id
      \<longrightarrow> get_or_404_check_course cls obj_course_id course_id kwargs = Inl PermissionDenied)
   \<and> (get_or_404_check_course cls obj_course_id course_id kwargs = Inr obj
      \<longleftrightarrow> filter kwargs cls = [obj] \<and> obj_course_id obj = course_id)"
  by (auto simp: get_or_404_check_course_def get_object_or_404_def objects_get_def
      split: list.splits sum.splits if_splits)

lemma alice_rows:
  "filter (\<lambda>st. student_pk st = 1) [alice_student, alice_elsewhere] = [alice_student]
   \<and> student_course alice_student = 1"
  by (simp add: alice_student_def alice_elsewhere_def)

theorem check_course_outcomes_witness:
  "filter (\<lambda>st. student_pk st = 1) [alice_student, alice_elsewhere] = [alice_student]
   \<and> student_course alice_student = 1
   \<and> get_or_404_check_course [alice_student, alice_elsewhere] student_course 2
       (\<lambda>st. student_pk st = 1) = Inl PermissionDenied
   \<and> get_or_404_check_course [alice_student, alice_elsewhere] student_course 1
       (\<lambda>st. student_pk st = 1) = Inr alice_student"
  using alice_rows
    check_course_outcomes [of "\<lambda>st. student_pk st = 1" "[alice_student, alice_elsewhere]"
      alice_student student_course 2]
    check_course_outcomes [of "\<lambda>st. student_pk st = 1" "[alice_student, alice_elsewhere]"
      alice_student student_course 1]
  by simp

lemma check_course_missing:
  "filter kwargs cls = [] \<Longrightarrow> get_or_404_check_course cls obj_course_id course_id kwargs = Inl Http404"
  by (simp add: get_or_404_check_course_def get_object_or_404_def objects_get_def)

section \<open>Counters\<close>

lemma length_filter_mem:
  assumes dx: "distinct xs" and dy: "distinct ys" and sub: "set ys \<subseteq> set xs"
  shows "length (filter (\<lambda>u. u \<in> set ys) xs) = length ys"
proof -
  have "distinct (filter (\<lambda>u. u \<in> set ys) xs)"
    using dx by simp
  then have "length (filter (\<lambda>u. u \<in> set ys) xs) = card (set (filter (\<lambda>u. u \<in> set ys) xs))"
    by (rule distinct_card [symmetric])
  also have "set (filter (\<lambda>u. u \<in> set ys) xs) = set ys"
    using sub by auto
  also have "card (set ys) = length ys"
    using dy by (simp add: distinct_card)
  finally show ?thesis .
qed

lemma length_filter_not_mem:
  assumes "distinct xs" "distinct ys" "set ys \<subseteq> set xs"
  shows "int (length (filter (\<lambda>u. u \<notin> set ys) xs)) = int (length xs) - int (length ys)"
proof -
  have "length (filter (\<lambda>u. u \<in> set ys) xs) + length (filter (\<lambda>u. \<not> u \<in> set ys) xs) = length xs"
    by (rule sum_length_filter_compl)
  with length_filter_mem [OF assms] show ?thesis by simp
qed

lemma has_student_eligible: "has_student d c u \<longleftrightarrow> user_pk u \<in> set (eligible_students d c)"
  by (auto simp: has_student_def has_grader_def eligible_students_def)

text \<open>
  Whatever the rows, the three counters of an assignment add up to the difference the
  code starts from: the course's Student rows minus its Grader rows.
\<close>

lemma counters_sum_difference:
  "graded_submissions_count d a + not_graded_submissions_count d a
     + not_submitted_submissions_count d c a
   = count (course_students d c) - count (course_graders d c)"
  by (simp add: not_submitted_submissions_count_def Let_def)

text \<open>
  The claim of C2 as stated fails on the course of the test fixtures: the grader has
  no Student row, a Submission row exists for the one eligible student, the three
  counters add up to 0, and one student is in scope.
\<close>

theorem counters_sum_counterexample:
  "all_materialized db_fixture cs101 hw1
   \<and> graded_submissions_count db_fixture hw1 + not_graded_submissions_count db_fixture hw1
       + not_submitted_submissions_count db_fixture cs101 hw1 = 0
   \<and> count (eligible_students db_fixture cs101) = 1"
  by (simp add: all_materialized_def graded_submissions_count_def
      not_graded_submissions_count_def not_submitted_submissions_count_def submissions_def
      count_def course_students_def course_graders_def eligible_students_def
      db_fixture_def cs101_def hw1_def alice_student_def bob_grader_def alice_new_def
      new_submission_def)

text \<open>
  C2, amended. When the course's Student rows and Grader rows are unique per user and
  every grader of the course also has a Student row in it, the graded count, the
  not-graded count and the not-submitted count of an assignment add up to the number
  of students in scope: the users of the course's Student rows who are not graders.
\<close>

theorem counters_sum_eligible:
  assumes "distinct (course_students d c)" "distinct (course_graders d c)"
    "set (course_graders d c) \<subseteq> set (course_students d c)"
  shows "graded_submissions_count d a + not_graded_submissions_count d a
           + not_submitted_submissions_count d c a = count (eligible_students d c)"
  using length_filter_not_mem [OF assms]
  by (simp add: not_submitted_submissions_count_def eligible_students_def count_def Let_def)

theorem counters_sum_eligible_witness:
  "distinct (course_students db_grader_enrolled cs101)
   \<and> distinct (course_graders db_grader_enrolled cs101)
   \<and> set (course_graders db_grader_enrolled cs101) \<subseteq> set (course_students db_grader_enrolled cs101)
   \<and> graded_submissions_count db_grader_enrolled hw1
       + not_graded_submissions_count db_grader_enrolled hw1
       + not_submitted_submissions_count db_grader_enrolled cs101 hw1 = 1
   \<and> count (eligible_students db_grader_enrolled cs101) = 1"
proof -
  have h1: "distinct (course_students db_grader_enrolled cs101)"
    by (simp add: course_students_def db_grader_enrolled_def db_fixture_def cs101_def
        alice_student_def bob_student_def)
  have h2: "distinct (course_graders db_grader_enrolled cs101)"
    by (simp add: course_graders_def db_grader_enrolled_def db_fixture_def cs101_def
        bob_grader_def)
  have h3: "set (course_graders db_grader_enrolled cs101)
              \<subseteq> set (course_students db_grader_enrolled cs101)"
    by (simp add: course_students_def course_graders_def db_grader_enrolled_def db_fixture_def
        cs101_def alice_student_def bob_student_def bob_grader_def)
  have e: "count (eligible_students db_grader_enrolled cs101) = 1"
    by (simp add: eligible_students_def count_def course_students_def course_graders_def
        db_grader_enrolled_def db_fixture_def cs101_def alice_student_def bob_student_def
        bob_grader_def)
  from counters_sum_eligible [OF h1 h2 h3, of hw1] h1 h2 h3 e show ?thesis by simp
qed

lemma on_roster_iff:
  "on_roster d g s \<longleftrightarrow> student s \<in> set (map student_user (grader_students d g))"
  by (fastforce simp: on_roster_def grader_students_def list_ex_iff image_iff)

text \<open>
  The claim of C8 as stated fails for the graded counters: bob has graded alice's
  submission and alice is on nobody's roster. Both graded counters scoped to bob count
  that submission, and no submission has its student on bob's roster.
\<close>

theorem graded_by_grader_counterexample:
  "graded_submissions_count_by_grader db_graded hw1 (Some bob_grader) None = Inr 1
   \<and> Grader_graded_submissions_count db_graded bob_grader = 1
   \<and> filter (on_roster db_graded bob_grader) (submission_table db_graded) = []"
  by (simp add: graded_submissions_count_by_grader_def Grader_graded_submissions_count_def
      assignment__course_def on_roster_def count_def db_graded_def db_fixture_def hw1_def
      alice_student_def bob_grader_def alice_graded_def)

text \<open>
  C8, amended. Invoked with a Grader, the not-graded counters count the submitted,
  ungraded submissions whose student is on that grader's roster, and the graded
  counters count the submitted, graded submissions whose \<open>graded_by\<close> is that
  grader's user, on the roster or not. The counters without a grader cover every
  submission of the assignment.
\<close>

theorem scoped_counters:
  "not_graded_submissions_count_by_grader d a (Some g) gu =
     Inr (count (filter (\<lambda>s. on_roster d g s \<and> submitted s \<and> \<not> graded s) (submissions d a)))
   \<and> Grader_not_graded_submissions_count d g =
     count (filter (\<lambda>s. on_roster d g s \<and> assignment__course d (grader_course g) s
                        \<and> submitted s \<and> \<not> graded s) (submission_table d))
   \<and> graded_submissions_count_by_grader d a (Some g) None =
     Inr (count (filter (\<lambda>s. graded_by s = Some (grader_user g) \<and> submitted s \<and> graded s)
                  (submissions d a)))
   \<and> Grader_graded_submissions_count d g =
     count (filter (\<lambda>s. graded_by s = Some (grader_user g)
                        \<and> assignment__course d (grader_course g) s
                        \<and> submitted s \<and> graded s) (submission_table d))
   \<and> graded_submissions_count d a =
     count (filter (\<lambda>s. assignment s = assignment_pk a \<and> submitted s \<and> graded s)
              (submission_table d))
   \<and> not_graded_submissions_count d a =
     count (filter (\<lambda>s. assignment s = assignment_pk a \<and> submitted s \<and> \<not> graded s)
              (submission_table d))"
proof -
  have 1: "not_graded_submissions_count_by_grader d a (Some g) gu =
     Inr (count (filter (\<lambda>s. on_roster d g s \<and> submitted s \<and> \<not> graded s) (submissions d a)))"
    by (simp add: not_graded_submissions_count_by_grader_def submissions_def on_roster_iff Let_def
        conj_commute conj_left_commute cong: filter_cong)
  have 2: "Grader_not_graded_submissions_count d g =
     count (filter (\<lambda>s. on_roster d g s \<and> assignment__course d (grader_course g) s
                        \<and> submitted s \<and> \<not> graded s) (submission_table d))"
    by (simp add: Grader_not_graded_submissions_count_def on_roster_iff Let_def)
  have 3: "graded_submissions_count_by_grader d a (Some g) None =
     Inr (count (filter (\<lambda>s. graded_by s = Some (grader_user g) \<and> submitted s \<and> graded s)
                  (submissions d a)))"
    by (simp add: graded_submissions_count_by_grader_def submissions_def
        conj_commute conj_left_commute cong: filter_cong)
  have 4: "Grader_graded_submissions_count d g =
     count (filter (\<lambda>s. graded_by s = Some (grader_user g)
                        \<and> assignment__course d (grader_course g) s
                        \<and> submitted s \<and> graded s) (submission_table d))"
    by (simp add: Grader_graded_submissions_count_def)
  have 5: "graded_submissions_count d a =
     count (filter (\<lambda>s. assignment s = assignment_pk a \<and> submitted s \<and> graded s)
              (submission_table d))"
    by (simp add: graded_submissions_count_def submissions_def conj_commute conj_left_commute
        cong: filter_cong)
  have 6: "not_graded_submissions_count d a =
     count (filter (\<lambda>s. assignment s = assignment_pk a \<and> submitted s \<and> \<not> graded s)
              (submission_table d))"
    by (simp add: not_graded_submissions_count_def submissions_def conj_commute conj_left_commute
        cong: filter_cong)
  from 1 2 3 4 5 6 show ?thesis by blast
qed

text \<open>With neither a grader nor a grader's user, the scoped graded counter raises.\<close>

lemma graded_by_grader_no_scope:
  "graded_submissions_count_by_grader d a None None = Inl AttributeError"
  by (simp add: graded_submissions_count_by_grader_def)

section \<open>Roles\<close>

text \<open>
  The claim of C5 as stated fails at its last clause: carol is an administrator of the
  course and has a Student row in it. Her role resolves to admin, and \<open>has_student\<close>
  is true for her.
\<close>

theorem has_student_admin_counterexample:
  "has_admin db_admin_enrolled cs101 carol
   \<and> user_pk carol \<in> set (course_students db_admin_enrolled cs101)
   \<and> get_role db_admin_enrolled cs101 carol = RoleAdmin
   \<and> has_student db_admin_enrolled cs101 carol"
  by (simp add: has_admin_def has_student_def has_grader_def get_role_def course_students_def
      course_graders_def db_admin_enrolled_def db_fixture_def cs101_def carol_def
      alice_student_def carol_student_def bob_grader_def)

text \<open>
  C5, amended. Grader-membership takes priority over student-membership in
  \<open>has_student\<close>: it is false for every grader of the course, and true for every
  other user with a Student row in the course, administrators included. Role
  resolution reports an administrator as admin, a grader who is no administrator as
  grader, and reports student exactly for the users \<open>has_student\<close> accepts who are
  not administrators.
\<close>

theorem role_precedence:
  "(has_grader d c u \<longrightarrow> \<not> has_student d c u)
   \<and> (has_admin d c u \<longrightarrow> get_role d c u = RoleAdmin)
   \<and> (has_grader d c u \<and> \<not> has_admin d c u \<longrightarrow> get_role d c u = RoleGrader)
   \<and> (get_role d c u = RoleStudent \<longleftrightarrow> has_student d c u \<and> \<not> has_admin d c u)
   \<and> (user_pk u \<in> set (course_students d c) \<and> \<not> has_grader d c u \<longrightarrow> has_student d c u)"
  by (auto simp: get_role_def has_student_def)

theorem role_precedence_witness:
  "has_grader db_grader_enrolled cs101 bob \<and> \<not> has_admin db_grader_enrolled cs101 bob
   \<and> user_pk bob \<in> set (course_students db_grader_enrolled cs101)
   \<and> \<not> has_student db_grader_enrolled cs101 bob
   \<and> get_role db_grader_enrolled cs101 bob = RoleGrader
   \<and> has_admin db_admin_enrolled cs101 carol
   \<and> get_role db_admin_enrolled cs101 carol = RoleAdmin
   \<and> has_student db_grader_enrolled cs101 alice
   \<and> get_role db_grader_enrolled cs101 alice = RoleStudent"
proof -
  have g: "has_grader db_grader_enrolled cs101 bob"
    by (simp add: has_grader_def course_graders_def db_grader_enrolled_def db_fixture_def
        cs101_def bob_def bob_grader_def)
  have na: "\<not> has_admin db_grader_enrolled cs101 bob"
    by (simp add: has_admin_def cs101_def bob_def)
  have m: "user_pk bob \<in> set (course_students db_grader_enrolled cs101)"
    by (simp add: course_students_def db_grader_enrolled_def db_fixture_def cs101_def bob_def
        alice_student_def bob_student_def)
  have a: "has_admin db_admin_enrolled cs101 carol"
    by (simp add: has_admin_def cs101_def carol_def)
  have s: "user_pk alice \<in> set (course_students db_grader_enrolled cs101)"
    "\<not> has_grader db_grader_enrolled cs101 alice" "\<not> has_admin db_grader_enrolled cs101 alice"
    by (simp_all add: has_grader_def has_admin_def course_students_def course_graders_def
        db_grader_enrolled_def db_fixture_def cs101_def alice_def alice_student_def
        bob_student_def bob_grader_def)
  show ?thesis
    using role_precedence [of db_grader_enrolled cs101 bob]
      role_precedence [of db_admin_enrolled cs101 carol]
      role_precedence [of db_grader_enrolled cs101 alice] g na m a s
    by simp
qed

section \<open>Lookup failures\<close>

text \<open>
  C9. In the three submission views, whatever exception the lookup step raises, the
  missing-record signal or any other, the view's outcome is \<open>Http404\<close> and nothing
  else.
\<close>

theorem lookup_failure_is_404:
  "(student_lookup d now r assignment_id = Inl e
      \<longrightarrow> view_submission_as_student d now r assignment_id = Inl Http404)
   \<and> (staff_lookup d now assignment_id student_user_id = Inl e
      \<longrightarrow> view_submission_as_staff d now r assignment_id student_user_id = Inl Http404
        \<and> unsubmit_submission d now r assignment_id student_user_id = Inl Http404)"
  by (simp add: view_submission_as_student_def view_submission_as_staff_def unsubmit_submission_def)

text \<open>
  An unknown assignment raises \<open>DoesNotExist\<close>; a student of two courses makes the
  lookup by username raise \<open>MultipleObjectsReturned\<close>.
\<close>

lemma unknown_assignment_lookup:
  "student_lookup db_fixture 30 submit_request ''hw2'' = Inl DoesNotExist"
  by (simp add: student_lookup_def objects_get_def db_fixture_def hw1_def)

lemma two_courses_lookup:
  "staff_lookup db_two_courses 30 ''hw1'' ''alice'' = Inl MultipleObjectsReturned"
  by (simp add: staff_lookup_def objects_get_def student_by_username_def db_two_courses_def
      db_fixture_def hw1_def alice_def bob_def carol_def alice_student_def alice_elsewhere_def)

theorem lookup_failure_is_404_witness:
  "student_lookup db_fixture 30 submit_request ''hw2'' = Inl DoesNotExist
   \<and> view_submission_as_student db_fixture 30 submit_request ''hw2'' = Inl Http404
   \<and> staff_lookup db_two_courses 30 ''hw1'' ''alice'' = Inl MultipleObjectsReturned
   \<and> view_submission_as_staff db_two_courses 30 grade_request ''hw1'' ''alice'' = Inl Http404
   \<and> unsubmit_submission db_two_courses 30 grade_request ''hw1'' ''alice'' = Inl Http404"
  using lookup_failure_is_404 [of db_fixture 30 submit_request "''hw2''" DoesNotExist "''alice''"]
    lookup_failure_is_404 [of db_two_courses 30 grade_request "''hw1''" MultipleObjectsReturned
      "''alice''"]
    two_courses_lookup unknown_assignment_lookup
  by simp

section \<open>Zip export\<close>

text \<open>
  C1. The generator is claimed to yield, for N submissions, chunks that concatenate to
  a valid archive of the N documents. For one submission with the document essay.pdf
  it raises \<open>AttributeError\<close> in \<open>writestr\<close>, which is given the file object as
  the entry's name, before it has yielded anything: no chunk comes, and nothing reads
  back as an archive.
\<close>

theorem zip_generator_raises_before_first_chunk:
  "submissions_zip_generator [alice_graded] = Raised [] AttributeError
   \<and> read_zip (concat []) = None"
  by (simp add: submissions_zip_generator_def writestr_def read_zip_def alice_graded_def)

text \<open>No submissions: one chunk, the empty archive.\<close>

lemma zip_generator_empty:
  "submissions_zip_generator [] = Finished [[CentralDirectory []]]
   \<and> read_zip (concat [[CentralDirectory []]]) = Some []"
  by (simp add: submissions_zip_generator_def close_def getvalue_def read_zip_def)

text \<open>
  With at least one submission the generator raises at the first one and yields no
  chunk: \<open>ValueError\<close> when the first submission has no document, \<open>AttributeError\<close>
  otherwise.
\<close>

lemma zip_generator_nonempty:
  "submissions_zip_generator (s # rest)
     = Raised [] (if student_document s = None then ValueError else AttributeError)"
  by (simp add: submissions_zip_generator_def writestr_def split: option.splits)

text \<open>
  Had the entry's name been a string, the entry would have been written and yielded,
  and the statement after the \<open>yield\<close> would have raised.
\<close>

lemma writestr_then_empty:
  "writestr ([], []) (ArcName ''essay.pdf'') ''x''
     = Inr ([''essay.pdf''], [LocalEntry ''essay.pdf'' ''x''])
   \<and> empty [LocalEntry ''essay.pdf'' ''x''] = Inl AttributeError"
  by (simp add: writestr_def empty_def)

section \<open>Submission state\<close>

lemma get_or_create_cases:
  assumes "get_or_create d now u a = Inr (s, d')"
  shows "(s \<in> set (submission_table d) \<and> d' = d)
         \<or> (s = new_submission (fresh_pk (submission_table d)) now u a
            \<and> d' = d\<lparr>submission_table := submission_table d @ [s]\<rparr>)"
proof (cases "filter (\<lambda>s. student s = u \<and> assignment s = a) (submission_table d)")
  case Nil
  with assms show ?thesis by (auto simp: get_or_create_def Let_def)
next
  case (Cons x xs)
  with assms have xs: "xs = []" and sx: "s = x" and dd: "d' = d"
    by (auto simp: get_or_create_def split: list.splits)
  have "x \<in> set (filter (\<lambda>s. student s = u \<and> assignment s = a) (submission_table d))"
    using Cons by simp
  then have "x \<in> set (submission_table d)" by simp
  with sx dd show ?thesis by simp
qed

lemma get_or_create_mem:
  "get_or_create d now u a = Inr (s, d') \<Longrightarrow> s \<in> set (submission_table d')"
  by (drule get_or_create_cases) auto

lemma staff_lookup_Inr:
  assumes "staff_lookup d now assignment_id student_user_id = Inr (a, st, s, d1)"
  shows "get_or_create d now (student_user st) (assignment_pk a) = Inr (s, d1)"
  using assms by (auto simp: staff_lookup_def split: sum.splits)

lemma student_lookup_Inr:
  assumes "student_lookup d now r assignment_id = Inr (a, s, d1)"
  shows "get_or_create d now (req_user r) (assignment_pk a) = Inr (s, d1)"
  using assms by (auto simp: student_lookup_def split: sum.splits)

text \<open>
  C6. When the admin unsubmit operation reaches a submission \<open>s\<close> (the row the lookup
  found, or created with the defaults), it succeeds, and afterwards the row of that
  submission has \<open>submitted\<close> and \<open>graded\<close> false and the grade, feedback,
  description, both documents, \<open>submitted_at\<close>, \<open>graded_at\<close> and \<open>graded_by\<close>
  (and the assignment and student) of \<open>s\<close>.
\<close>

theorem unsubmit_frame:
  assumes "staff_lookup d now assignment_id student_user_id = Inr (a, st, s, d1)"
  shows "\<exists>d'. unsubmit_submission d now r assignment_id student_user_id
                 = Inr (Redirect ''view_submission_as_staff'', d')
     \<and> (s \<in> set (submission_table d)
        \<or> s = new_submission (fresh_pk (submission_table d)) now (student_user st) (assignment_pk a))
     \<and> list_ex (\<lambda>x. submission_pk x = submission_pk s) (submission_table d')
     \<and> (\<forall>x \<in> set (submission_table d'). submission_pk x = submission_pk s \<longrightarrow>
          \<not> submitted x \<and> \<not> graded x
          \<and> grade x = grade s \<and> feedback x = feedback s \<and> description x = description s
          \<and> student_document x = student_document s \<and> grader_document x = grader_document s
          \<and> submitted_at x = submitted_at s \<and> graded_at x = graded_at s \<and> graded_by x = graded_by s
          \<and> assignment x = assignment s \<and> student x = student s)"
proof -
  let ?s1 = "s\<lparr>submitted := False, graded := False\<rparr>"
  have goc: "get_or_create d now (student_user st) (assignment_pk a) = Inr (s, d1)"
    using assms by (rule staff_lookup_Inr)
  have run: "unsubmit_submission d now r assignment_id student_user_id
               = Inr (Redirect ''view_submission_as_staff'', save d1 now ?s1)"
    using assms by (simp add: unsubmit_submission_def Let_def)
  have pre: "s \<in> set (submission_table d)
        \<or> s = new_submission (fresh_pk (submission_table d)) now (student_user st) (assignment_pk a)"
    using get_or_create_cases [OF goc] by blast
  have mem: "s \<in> set (submission_table d1)"
    using goc by (rule get_or_create_mem)
  have "?s1\<lparr>updated_on := now\<rparr> \<in> set (submission_table (save d1 now ?s1))"
    using mem by (force simp: save_def image_iff)
  then have "\<exists>x \<in> set (submission_table (save d1 now ?s1)). submission_pk x = submission_pk s"
    by (rule bexI [rotated]) simp
  then have there: "list_ex (\<lambda>x. submission_pk x = submission_pk s)
                      (submission_table (save d1 now ?s1))"
    by (simp add: list_ex_iff)
  have frame: "\<forall>x \<in> set (submission_table (save d1 now ?s1)). submission_pk x = submission_pk s \<longrightarrow>
          \<not> submitted x \<and> \<not> graded x
          \<and> grade x = grade s \<and> feedback x = feedback s \<and> description x = description s
          \<and> student_document x = student_document s \<and> grader_document x = grader_document s
          \<and> submitted_at x = submitted_at s \<and> graded_at x = graded_at s \<and> graded_by x = graded_by s
          \<and> assignment x = assignment s \<and> student x = student s"
    by (auto simp: save_def)
  from run pre there frame show ?thesis by blast
qed

lemma graded_lookup:
  "staff_lookup db_graded 30 ''hw1'' ''alice'' = Inr (hw1, alice_student, alice_graded, db_graded)"
  by (simp add: staff_lookup_def objects_get_def student_by_username_def get_or_create_def
      db_graded_def db_fixture_def hw1_def alice_def bob_def carol_def alice_student_def
      alice_graded_def)

text \<open>Unsubmitting alice's graded submission keeps the grade 85 and the feedback.\<close>

theorem unsubmit_frame_witness:
  "staff_lookup db_graded 30 ''hw1'' ''alice'' = Inr (hw1, alice_student, alice_graded, db_graded)
   \<and> grade alice_graded = Some 85 \<and> graded alice_graded \<and> submitted alice_graded
   \<and> (\<exists>d'. unsubmit_submission db_graded 30 grade_request ''hw1'' ''alice''
                 = Inr (Redirect ''view_submission_as_staff'', d')
        \<and> list_ex (\<lambda>x. submission_pk x = 1) (submission_table d')
        \<and> list_all (\<lambda>x. submission_pk x = 1 \<longrightarrow>
              \<not> submitted x \<and> \<not> graded x \<and> grade x = Some 85 \<and> feedback x = Some ''good''
              \<and> graded_by x = Some 2 \<and> graded_at x = Some 20 \<and> submitted_at x = Some 10)
            (submission_table d'))"
proof -
  have f: "grade alice_graded = Some 85" "graded alice_graded" "submitted alice_graded"
    "submission_pk alice_graded = 1" "feedback alice_graded = Some ''good''"
    "graded_by alice_graded = Some 2" "graded_at alice_graded = Some 20"
    "submitted_at alice_graded = Some 10"
    by (simp_all add: alice_graded_def)
  from unsubmit_frame [OF graded_lookup, of grade_request] graded_lookup f
  show ?thesis by (auto simp: list_all_iff)
qed

lemma timestamps_ok_updated: "timestamps_ok (s\<lparr>updated_on := t\<rparr>) = timestamps_ok s"
  by (simp add: timestamps_ok_def)

lemma save_ok:
  assumes "\<forall>x \<in> set (submission_table d). timestamps_ok x" "timestamps_ok s"
  shows "\<forall>x \<in> set (submission_table (save d now s)). timestamps_ok x"
  using assms by (auto simp: save_def timestamps_ok_updated)

lemma get_or_create_ok:
  assumes "get_or_create d now u a = Inr (s, d')" "\<forall>x \<in> set (submission_table d). timestamps_ok x"
  shows "(\<forall>x \<in> set (submission_table d'). timestamps_ok x) \<and> timestamps_ok s"
proof -
  have new: "timestamps_ok (new_submission pk now u a)" for pk
    by (simp add: timestamps_ok_def new_submission_def)
  from get_or_create_cases [OF assms(1)] show ?thesis
    using assms(2) new by auto
qed

lemma student_view_ok:
  assumes "view_submission_as_student d now r assignment_id = Inr (resp, d')"
    "\<forall>x \<in> set (submission_table d). timestamps_ok x"
  shows "\<forall>x \<in> set (submission_table d'). timestamps_ok x"
proof (cases "student_lookup d now r assignment_id")
  case (Inl e)
  with assms(1) show ?thesis by (simp add: view_submission_as_student_def)
next
  case (Inr t)
  obtain a s d1 where t: "t = (a, s, d1)" by (cases t) auto
  have ok: "(\<forall>x \<in> set (submission_table d1). timestamps_ok x) \<and> timestamps_ok s"
    using get_or_create_ok [OF student_lookup_Inr assms(2)] Inr t by simp
  let ?s1 = "student_form_save r s"
  let ?s2 = "?s1\<lparr>submitted := True, submitted_at := Some now\<rparr>"
  have s1: "timestamps_ok ?s1"
    using ok by (simp add: timestamps_ok_def student_form_save_def)
  have s2: "timestamps_ok ?s2"
    using s1 by (simp add: timestamps_ok_def)
  show ?thesis
  proof (cases "req_method r = POST \<and> post_valid r")
    case True
    with assms(1) Inr t have "d' = save (save d1 now ?s1) now ?s2"
      by (simp add: view_submission_as_student_def Let_def)
    moreover from ok have ok1: "\<forall>x \<in> set (submission_table d1). timestamps_ok x" by simp
    ultimately show ?thesis using save_ok [OF save_ok [OF ok1 s1] s2] by simp
  next
    case False
    with assms(1) Inr t have "d' = d1"
      by (auto simp: view_submission_as_student_def)
    with ok show ?thesis by simp
  qed
qed

lemma staff_view_ok:
  assumes "view_submission_as_staff d now r assignment_id student_user_id = Inr (resp, d')"
    "\<forall>x \<in> set (submission_table d). timestamps_ok x"
  shows "\<forall>x \<in> set (submission_table d'). timestamps_ok x"
proof (cases "staff_lookup d now assignment_id student_user_id")
  case (Inl e)
  with assms(1) show ?thesis by (simp add: view_submission_as_staff_def)
next
  case (Inr t)
  obtain a st s d1 where t: "t = (a, st, s, d1)" by (cases t) auto
  have ok: "(\<forall>x \<in> set (submission_table d1). timestamps_ok x) \<and> timestamps_ok s"
    using get_or_create_ok [OF staff_lookup_Inr assms(2)] Inr t by simp
  let ?s1 = "grader_form_save r s"
  let ?s2 = "?s1\<lparr>graded_at := Some now, graded_by := Some (req_user r), graded := True\<rparr>"
  have s1: "timestamps_ok ?s1"
    using ok by (simp add: timestamps_ok_def grader_form_save_def)
  have s2: "timestamps_ok ?s2"
    using s1 by (simp add: timestamps_ok_def)
  show ?thesis
  proof (cases "req_method r = POST \<and> post_valid r")
    case True
    with assms(1) Inr t have "d' = save (save d1 now ?s1) now ?s2"
      by (simp add: view_submission_as_staff_def Let_def)
    moreover from ok have ok1: "\<forall>x \<in> set (submission_table d1). timestamps_ok x" by simp
    ultimately show ?thesis using save_ok [OF save_ok [OF ok1 s1] s2] by simp
  next
    case False
    with assms(1) Inr t have "d' = d1"
      by (auto simp: view_submission_as_staff_def)
    with ok show ?thesis by simp
  qed
qed

lemma unsubmit_ok:
  assumes "unsubmit_submission d now r assignment_id student_user_id = Inr (resp, d')"
    "\<forall>x \<in> set (submission_table d). timestamps_ok x"
  shows "\<forall>x \<in> set (submission_table d'). timestamps_ok x"
proof (cases "staff_lookup d now assignment_id student_user_id")
  case (Inl e)
  with assms(1) show ?thesis by (simp add: unsubmit_submission_def)
next
  case (Inr t)
  obtain a st s d1 where t: "t = (a, st, s, d1)" by (cases t) auto
  have ok: "(\<forall>x \<in> set (submission_table d1). timestamps_ok x) \<and> timestamps_ok s"
    using get_or_create_ok [OF staff_lookup_Inr assms(2)] Inr t by simp
  let ?s1 = "s\<lparr>submitted := False, graded := False\<rparr>"
  have s1: "timestamps_ok ?s1"
    by (simp add: timestamps_ok_def)
  from assms(1) Inr t have "d' = save d1 now ?s1"
    by (simp add: unsubmit_submission_def Let_def)
  moreover from ok have ok1: "\<forall>x \<in> set (submission_table d1). timestamps_ok x" by simp
  ultimately show ?thesis using save_ok [OF ok1 s1] by simp
qed

lemma step_ok:
  assumes "\<forall>x \<in> set (submission_table d). timestamps_ok x"
  shows "\<forall>x \<in> set (submission_table (step d now c)). timestamps_ok x"
proof (cases "call_view d now c")
  case (Inl e)
  with assms show ?thesis by (simp add: step_def)
next
  case (Inr t)
  obtain resp d' where t: "t = (resp, d')" by (cases t) auto
  have "\<forall>x \<in> set (submission_table d'). timestamps_ok x"
  proof (cases c)
    case (StudentSubmit r aid)
    with Inr t assms show ?thesis by (auto simp: call_view_def dest: student_view_ok)
  next
    case (StaffGrade r aid uid)
    with Inr t assms show ?thesis by (auto simp: call_view_def dest: staff_view_ok)
  next
    case (AdminUnsubmit r aid uid)
    with Inr t assms show ?thesis by (auto simp: call_view_def dest: unsubmit_ok)
  qed
  with Inr t show ?thesis by (simp add: step_def)
qed

text \<open>
  C7. In every state the three views reach from a database without submissions, every
  Submission row that is graded has \<open>graded_at\<close> and \<open>graded_by\<close> set, and every
  row that is submitted has \<open>submitted_at\<close> set.
\<close>

theorem reachable_timestamps:
  "reachable d \<Longrightarrow> \<forall>s \<in> set (submission_table d). timestamps_ok s"
proof (induction rule: reachable.induct)
  case (initial d)
  then show ?case by simp
next
  case (after_view d now c)
  from after_view.IH show ?case by (rule step_ok)
qed

lemma start_empty: "submission_table db_start = []"
  by (simp add: db_start_def db_fixture_def)

lemma after_grading_reachable: "reachable db_after_grading"
  unfolding db_after_grading_def
  by (intro reachable.after_view reachable.initial start_empty)

lemma after_grading_rows:
  "map (\<lambda>s. (student s, submitted s, submitted_at s, graded s, graded_at s, graded_by s, grade s))
     (submission_table db_after_grading)
   = [(1, True, Some 10, True, Some 20, Some 2, Some 85)]"
  by (simp add: db_after_grading_def step_def call_view_def view_submission_as_student_def
      view_submission_as_staff_def student_lookup_def staff_lookup_def student_by_username_def
      objects_get_def get_or_create_def new_submission_def fresh_pk_def save_def
      student_form_save_def grader_form_save_def Let_def
      db_start_def db_fixture_def alice_def bob_def carol_def hw1_def alice_student_def
      submit_request_def grade_request_def)

text \<open>After alice has submitted and bob has graded, the one row is submitted and graded.\<close>

theorem reachable_timestamps_witness:
  "reachable db_after_grading
   \<and> map (\<lambda>s. (student s, submitted s, submitted_at s, graded s, graded_at s, graded_by s, grade s))
       (submission_table db_after_grading)
     = [(1, True, Some 10, True, Some 20, Some 2, Some 85)]
   \<and> list_all timestamps_ok (submission_table db_after_grading)"
  using reachable_timestamps [OF after_grading_reachable] after_grading_reachable
    after_grading_rows
  by (simp add: list_all_iff)

end
